theory Spec2Isabelle
  imports
    Complex_Main
    "HOL-Library.AList"
    "HOL-Library.Char_ord"
    "HOL-Library.List_Lexorder"
    "HOL-Library.Word"
begin

section \<open>Data model\<close>

text \<open>
  The peer of \<^verbatim>\<open>peer.py\<close>, its election manager (\<^verbatim>\<open>election.py\<close>), the UDP receive
  loop (\<^verbatim>\<open>networking.py\<close>) and the download path (\<^verbatim>\<open>file_manager.py\<close>,
  \<^verbatim>\<open>networking.py\<close>).

  Peer identifiers are Python strings, compared with \<^verbatim>\<open><\<close> and \<^verbatim>\<open>>\<close>: strings here, with the
  lexicographic order on characters. Timestamps are the readings of \<^verbatim>\<open>time.time()\<close>, taken
  as reals and passed to every function that reads the clock. Python dictionaries are
  association lists in insertion order: \<^verbatim>\<open>d[k] = v\<close> is \<open>AList.update\<close>, \<^verbatim>\<open>del d[k]\<close> is
  \<open>AList.delete\<close>, \<^verbatim>\<open>d.get(k)\<close> is \<open>map_of\<close>.
\<close>

type_synonym peer_id = string
type_synonym addr = "string \<times> nat"
type_synonym bytes = "8 word list"

text \<open>Peer states and message types are the string constants of \<^verbatim>\<open>peer.py\<close>.\<close>

definition FOLLOWER :: string where "FOLLOWER = ''FOLLOWER''"
definition CANDIDATE :: string where "CANDIDATE = ''CANDIDATE''"
definition LEADER :: string where "LEADER = ''LEADER''"

definition MSG_DISCOVERY :: string where "MSG_DISCOVERY = ''DISCOVERY''"
definition MSG_DISCOVERY_RESPONSE :: string where "MSG_DISCOVERY_RESPONSE = ''DISCOVERY_RESPONSE''"
definition MSG_HEARTBEAT :: string where "MSG_HEARTBEAT = ''HEARTBEAT''"
definition MSG_ELECTION :: string where "MSG_ELECTION = ''ELECTION''"
definition MSG_COORDINATOR :: string where "MSG_COORDINATOR = ''COORDINATOR''"
definition MSG_PUBLISH :: string where "MSG_PUBLISH = ''PUBLISH''"
definition MSG_QUERY_FILES :: string where "MSG_QUERY_FILES = ''QUERY_FILES''"
definition MSG_FILE_LIST :: string where "MSG_FILE_LIST = ''FILE_LIST''"

text \<open>The metadata a publisher sends for one file: \<^verbatim>\<open>{'size': .., 'hash': ..}\<close>, either key
  possibly absent.\<close>

record metadata =
  md_size :: "int option"
  md_hash :: "string option"

text \<open>A catalog entry: \<^verbatim>\<open>{'peer_id', 'host', 'port', 'size', 'hash'}\<close>.\<close>

record entry =
  peer_id :: peer_id
  host :: string
  port :: nat
  e_size :: int
  e_hash :: "string option"

type_synonym catalog = "(string \<times> entry list) list"

text \<open>The \<^verbatim>\<open>files\<close> field of a PUBLISH: a mapping from names to metadata, or (old
  protocol) a plain list of names.\<close>

datatype files_payload = FileMap "(string \<times> metadata) list" | FileList "string list"

text \<open>
  A decoded message is a dictionary; the keys the handlers read are the fields of this
  record, \<open>None\<close> for a key that is absent (or null). A key that is present holds a value
  of the field's type.
\<close>

record message =
  m_type :: "string option"
  m_sender_id :: "peer_id option"
  m_peer_id :: "peer_id option"
  m_role :: "string option"
  m_addr :: "addr option"
  m_leader_id :: "peer_id option"
  m_files :: "files_payload option"
  m_tcp_port :: "nat option"
  m_catalog :: "catalog option"

definition empty_message :: message where
  "empty_message = \<lparr>m_type = None, m_sender_id = None, m_peer_id = None, m_role = None,
     m_addr = None, m_leader_id = None, m_files = None, m_tcp_port = None, m_catalog = None\<rparr>"

text \<open>
  What a peer does to the outside: datagrams handed to \<^verbatim>\<open>send_packet\<close> and
  \<^verbatim>\<open>send_broadcast\<close> (both best-effort, their own errors swallowed) and one-shot timers
  started with \<^verbatim>\<open>threading.Timer\<close>.
\<close>

datatype timer_callback = Check_election_result | Check_discovery_timeout

datatype effect =
    Send_packet message addr
  | Send_broadcast message
  | Start_timer real timer_callback

record peer_info =
  addr :: addr
  last_seen :: real

text \<open>
  The peer object together with its election manager. \<open>self_id\<close> is \<^verbatim>\<open>self.id\<close>,
  \<open>udp_port\<close> is \<^verbatim>\<open>self.unicast_socket.port\<close>, \<open>tcp_port\<close> is \<^verbatim>\<open>self.tcp_server.port\<close>,
  \<open>election_in_progress\<close> and \<open>last_election_time\<close> are the fields of
  \<^verbatim>\<open>self.election_manager\<close>. \<open>outbox\<close> is the trace of effects, oldest first.
  Console prints of the handlers are not modelled.
\<close>

record peer =
  self_id :: peer_id
  state :: string
  leader_id :: "peer_id option"
  peers :: "(peer_id \<times> peer_info) list"
  global_catalog :: catalog
  last_heartbeats :: "(peer_id \<times> real) list"
  last_leader_heartbeat :: real
  udp_port :: nat
  tcp_port :: nat
  election_in_progress :: bool
  last_election_time :: real
  running :: bool
  outbox :: "effect list"

text \<open>The clock reading and the result of \<^verbatim>\<open>get_local_ip()\<close> at the time a handler runs.\<close>

record env =
  now :: real
  local_ip :: string

datatype py_error = KeyError | TypeError

text \<open>Python truthiness of an optional string: \<^verbatim>\<open>None\<close> and \<^verbatim>\<open>''\<close> are false.\<close>

fun truthy :: "string option \<Rightarrow> bool" where
  "truthy None = False"
| "truthy (Some s) = (s \<noteq> [])"

definition send_packet :: "message \<Rightarrow> addr \<Rightarrow> peer \<Rightarrow> peer" where
  "send_packet msg a p = p\<lparr>outbox := outbox p @ [Send_packet msg a]\<rparr>"

definition send_broadcast :: "message \<Rightarrow> peer \<Rightarrow> peer" where
  "send_broadcast msg p = p\<lparr>outbox := outbox p @ [Send_broadcast msg]\<rparr>"

definition start_timer :: "real \<Rightarrow> timer_callback \<Rightarrow> peer \<Rightarrow> peer" where
  "start_timer d cb p = p\<lparr>outbox := outbox p @ [Start_timer d cb]\<rparr>"

section \<open>Election manager (election.py)\<close>

definition election_msg :: "peer \<Rightarrow> message" where
  "election_msg p = empty_message\<lparr>m_type := Some ''ELECTION'', m_sender_id := Some (self_id p)\<rparr>"

definition start_election :: "env \<Rightarrow> peer \<Rightarrow> peer" where
  "start_election e p =
     (if election_in_progress p then p
      else start_timer 3.0 Check_election_result
             (send_broadcast (election_msg p)
               (p\<lparr>election_in_progress := True, last_election_time := now e\<rparr>)))"

definition handle_election_message :: "env \<Rightarrow> peer \<Rightarrow> message \<Rightarrow> py_error + peer" where
  "handle_election_message e p message =
     (case m_sender_id message of
        None \<Rightarrow> Inl KeyError
      | Some sender_id \<Rightarrow>
          if sender_id > self_id p then Inr (p\<lparr>election_in_progress := False\<rparr>)
          else if sender_id < self_id p then
            (if \<not> election_in_progress p then Inr (start_election e p) else Inr p)
          else Inr p)"

definition coordinator_msg :: "env \<Rightarrow> peer \<Rightarrow> message" where
  "coordinator_msg e p = empty_message\<lparr>m_type := Some ''COORDINATOR'',
     m_sender_id := Some (self_id p), m_addr := Some (local_ip e, udp_port p)\<rparr>"

definition declare_victory :: "env \<Rightarrow> peer \<Rightarrow> peer" where
  "declare_victory e p =
     (let p1 = p\<lparr>state := ''LEADER'', leader_id := Some (self_id p),
                  election_in_progress := False\<rparr>
      in send_broadcast (coordinator_msg e p1) p1)"

definition check_election_result :: "env \<Rightarrow> peer \<Rightarrow> peer" where
  "check_election_result e p = (if election_in_progress p then declare_victory e p else p)"

section \<open>Message handlers (peer.py)\<close>

definition handle_discovery :: "env \<Rightarrow> peer \<Rightarrow> message \<Rightarrow> addr \<Rightarrow> py_error + peer" where
  "handle_discovery e p message a =
     (if state p = LEADER then
        (case m_sender_id message of
           None \<Rightarrow> Inl KeyError
         | Some sender_id \<Rightarrow>
             let response = empty_message\<lparr>m_type := Some MSG_DISCOVERY_RESPONSE,
                   m_sender_id := Some (self_id p), m_leader_id := Some (self_id p)\<rparr>;
                 p1 = send_packet response a p
             in Inr (p1\<lparr>peers := AList.update sender_id \<lparr>addr = a, last_seen = now e\<rparr> (peers p1)\<rparr>))
      else Inr p)"

definition handle_discovery_response ::
  "env \<Rightarrow> peer \<Rightarrow> message \<Rightarrow> addr option \<Rightarrow> py_error + peer" where
  "handle_discovery_response e p message a =
     (case m_leader_id message of
        None \<Rightarrow> Inl KeyError
      | Some l \<Rightarrow>
          let p1 = p\<lparr>leader_id := Some l, state := FOLLOWER\<rparr>
          in (case a of
                Some ad \<Rightarrow> Inr (p1\<lparr>peers := AList.update l \<lparr>addr = ad, last_seen = now e\<rparr> (peers p1)\<rparr>)
              | None \<Rightarrow> Inr p1))"

text \<open>Lines 251 to 256 of \<^verbatim>\<open>handle_heartbeat\<close>: the leader records a peer's heartbeat.
  \<^verbatim>\<open>message.get('peer_id') or message.get('sender_id')\<close> takes the second when the first is
  absent or empty.\<close>

definition record_heartbeat :: "env \<Rightarrow> peer \<Rightarrow> message \<Rightarrow> peer" where
  "record_heartbeat e p message =
     (let pid_opt = (if truthy (m_peer_id message) then m_peer_id message else m_sender_id message)
      in (case pid_opt of
            None \<Rightarrow> p
          | Some pid \<Rightarrow>
              if truthy pid_opt then
                (let p1 = p\<lparr>last_heartbeats := AList.update pid (now e) (last_heartbeats p)\<rparr>
                 in if map_of (peers p1) pid \<noteq> None
                    then p1\<lparr>peers := AList.map_entry pid (\<lambda>i. i\<lparr>last_seen := now e\<rparr>) (peers p1)\<rparr>
                    else p1)
              else p))"

text \<open>\<^verbatim>\<open>sender_id > self.id\<close> with \<^verbatim>\<open>sender_id\<close> absent compares \<^verbatim>\<open>None\<close> with a string, which
  raises \<^verbatim>\<open>TypeError\<close>.\<close>

definition handle_heartbeat :: "env \<Rightarrow> peer \<Rightarrow> message \<Rightarrow> py_error + peer" where
  "handle_heartbeat e p message =
     (let p1 = (if state p = FOLLOWER \<and> m_sender_id message = leader_id p
                then p\<lparr>last_leader_heartbeat := now e\<rparr> else p)
      in if state p1 = LEADER then
           (if m_role message = Some LEADER then
              (case m_sender_id message of
                 None \<Rightarrow> Inl TypeError
               | Some sender_id \<Rightarrow>
                   if sender_id > self_id p1
                   then Inr (p1\<lparr>state := FOLLOWER, leader_id := Some sender_id,
                                 last_leader_heartbeat := now e\<rparr>)
                   else Inr (record_heartbeat e p1 message))
            else Inr (record_heartbeat e p1 message))
         else Inr p1)"

definition handle_election :: "env \<Rightarrow> peer \<Rightarrow> message \<Rightarrow> py_error + peer" where
  "handle_election e p message = handle_election_message e p message"

definition handle_coordinator :: "env \<Rightarrow> peer \<Rightarrow> message \<Rightarrow> py_error + peer" where
  "handle_coordinator e p message =
     (case m_sender_id message of
        None \<Rightarrow> Inl KeyError
      | Some new_leader \<Rightarrow>
          let p1 = p\<lparr>leader_id := Some new_leader, state := FOLLOWER,
                     election_in_progress := False\<rparr>;
              p2 = (case m_addr message of
                      Some a \<Rightarrow> p1\<lparr>peers := AList.update new_leader
                                          \<lparr>addr = a, last_seen = now e\<rparr> (peers p1)\<rparr>
                    | None \<Rightarrow> p1)
          in Inr (p2\<lparr>global_catalog := []\<rparr>))"

text \<open>\<^verbatim>\<open>self.global_catalog[filename]\<close> read where the key is known to be present (after
  line 312, and for the keys listed by the sweep).\<close>

definition entries :: "catalog \<Rightarrow> string \<Rightarrow> entry list" where
  "entries cat filename = (case map_of cat filename of Some es \<Rightarrow> es | None \<Rightarrow> [])"

text \<open>Line 307, \<^verbatim>\<open>{f: {'size': 0, 'hash': None} for f in files}\<close>.\<close>

definition files_of_list :: "string list \<Rightarrow> (string \<times> metadata) list" where
  "files_of_list names =
     foldl (\<lambda>d f. AList.update f \<lparr>md_size = Some 0, md_hash = None\<rparr> d) [] names"

definition new_entry :: "peer_id \<Rightarrow> string \<Rightarrow> nat \<Rightarrow> metadata \<Rightarrow> entry" where
  "new_entry pid h prt md =
     \<lparr>peer_id = pid, host = h, port = prt,
      e_size = (case md_size md of Some n \<Rightarrow> n | None \<Rightarrow> 0), e_hash = md_hash md\<rparr>"

text \<open>One iteration of the loop of lines 310 to 325.\<close>

definition publish_one :: "peer_id \<Rightarrow> string \<Rightarrow> nat \<Rightarrow> catalog \<Rightarrow> string \<times> metadata \<Rightarrow> catalog" where
  "publish_one pid h prt cat fm =
     (let filename = fst fm;
          cat1 = (if map_of cat filename = None then AList.update filename [] cat else cat);
          cat2 = AList.update filename
                   (filter (\<lambda>en. peer_id en \<noteq> pid) (entries cat1 filename)) cat1
      in AList.update filename (entries cat2 filename @ [new_entry pid h prt (snd fm)]) cat2)"

definition handle_publish :: "env \<Rightarrow> peer \<Rightarrow> message \<Rightarrow> addr option \<Rightarrow> py_error + peer" where
  "handle_publish e p message a =
     (if state p = LEADER then
        (case m_sender_id message of
           None \<Rightarrow> Inl KeyError
         | Some sender_id \<Rightarrow>
        (case m_files message of
           None \<Rightarrow> Inl KeyError
         | Some fs \<Rightarrow>
        (case m_tcp_port message of
           None \<Rightarrow> Inl KeyError
         | Some prt \<Rightarrow>
             let files = (case fs of FileList names \<Rightarrow> files_of_list names | FileMap fm \<Rightarrow> fm);
                 h = (case a of Some ad \<Rightarrow> fst ad | None \<Rightarrow> local_ip e)
             in Inr (p\<lparr>global_catalog :=
                          foldl (publish_one sender_id h prt) (global_catalog p) files\<rparr>))))
      else Inr p)"

definition handle_query_files :: "env \<Rightarrow> peer \<Rightarrow> message \<Rightarrow> addr \<Rightarrow> py_error + peer" where
  "handle_query_files e p message a =
     (if state p = LEADER then
        (case m_sender_id message of
           None \<Rightarrow> Inl KeyError
         | Some _ \<Rightarrow>
             Inr (send_packet (empty_message\<lparr>m_type := Some MSG_FILE_LIST,
                    m_sender_id := Some (self_id p), m_catalog := Some (global_catalog p)\<rparr>) a p))
      else Inr p)"

definition handle_file_list :: "env \<Rightarrow> peer \<Rightarrow> message \<Rightarrow> py_error + peer" where
  "handle_file_list e p message =
     (case m_catalog message of
        None \<Rightarrow> Inl KeyError
      | Some c \<Rightarrow> Inr (p\<lparr>global_catalog := c\<rparr>))"

definition handle_udp_message :: "env \<Rightarrow> peer \<Rightarrow> message \<Rightarrow> addr \<Rightarrow> py_error + peer" where
  "handle_udp_message e p message a =
     (let msg_type = m_type message; sender_id = m_sender_id message
      in if sender_id = Some (self_id p) then Inr p
         else if msg_type = Some MSG_DISCOVERY then handle_discovery e p message a
         else if msg_type = Some MSG_DISCOVERY_RESPONSE
           then handle_discovery_response e p message (Some a)
         else if msg_type = Some MSG_HEARTBEAT then handle_heartbeat e p message
         else if msg_type = Some MSG_ELECTION then handle_election e p message
         else if msg_type = Some MSG_COORDINATOR then handle_coordinator e p message
         else if msg_type = Some MSG_PUBLISH then handle_publish e p message (Some a)
         else if msg_type = Some MSG_QUERY_FILES then handle_query_files e p message a
         else if msg_type = Some MSG_FILE_LIST then handle_file_list e p message
         else Inr p)"

section \<open>Periodic tasks (peer.py)\<close>

text \<open>Lines 227 to 230: the catalog purge for one dead peer, over the keys listed before
  the loop starts.\<close>

definition purge_one :: "peer_id \<Rightarrow> catalog \<Rightarrow> string \<Rightarrow> catalog" where
  "purge_one pid cat filename =
     (let cat1 = AList.update filename
                   (filter (\<lambda>en. peer_id en \<noteq> pid) (entries cat filename)) cat
      in if entries cat1 filename = [] then AList.delete filename cat1 else cat1)"

definition purge :: "peer_id \<Rightarrow> catalog \<Rightarrow> catalog" where
  "purge pid cat = foldl (purge_one pid) cat (map fst cat)"

text \<open>Lines 220 to 230: the removal of one dead peer.\<close>

definition remove_dead_peer :: "peer \<Rightarrow> peer_id \<Rightarrow> peer" where
  "remove_dead_peer p pid =
     p\<lparr>last_heartbeats := AList.delete pid (last_heartbeats p),
       peers := AList.delete pid (peers p),
       global_catalog := purge pid (global_catalog p)\<rparr>"

definition dead_peers :: "real \<Rightarrow> peer \<Rightarrow> peer_id list" where
  "dead_peers t p = map fst (filter (\<lambda>(pid, seen). t - seen > 15) (last_heartbeats p))"

text \<open>One pass of the loop of \<^verbatim>\<open>_monitor_peers\<close>, at clock reading \<open>t\<close>.\<close>

definition monitor_peers :: "real \<Rightarrow> peer \<Rightarrow> peer" where
  "monitor_peers t p =
     (if state p = LEADER then foldl remove_dead_peer p (dead_peers t p) else p)"

definition leader_heartbeat_msg :: "peer \<Rightarrow> message" where
  "leader_heartbeat_msg p = empty_message\<lparr>m_type := Some MSG_HEARTBEAT,
     m_sender_id := Some (self_id p), m_role := Some LEADER\<rparr>"

text \<open>One pass of \<^verbatim>\<open>heartbeat_loop\<close> after its sleep.\<close>

definition heartbeat_loop :: "env \<Rightarrow> peer \<Rightarrow> peer" where
  "heartbeat_loop e p =
     (if state p = LEADER then send_broadcast (leader_heartbeat_msg p) p
      else if state p = FOLLOWER then
        (if truthy (leader_id p) \<and> now e - last_leader_heartbeat p > 10
         then start_election e (p\<lparr>leader_id := None\<rparr>) else p)
      else p)"

section \<open>The UDP receive loop (networking.py)\<close>

text \<open>
  What one pass of the loop of \<^verbatim>\<open>UDPSocket.listen\<close> meets: \<^verbatim>\<open>recvfrom\<close> raises, or it
  returns a datagram and its source address. The datagram is given by what
  \<^verbatim>\<open>json.loads(data.decode('utf-8'))\<close> makes of it: \<open>None\<close> when the payload is malformed or
  undecodable (the call raises), the message otherwise.
\<close>

datatype recv_event = Recv_raises | Datagram "message option" addr

datatype console_line =
    Error_receiving_UDP_packet
  | Downloading
  | Downloaded
  | Verifying_file_integrity
  | Integrity_verified
  | Integrity_check_FAILED string string
  | Error_downloading_file
  | Error_receiving_file

text \<open>
  The loop over the events that arrive, from a state \<open>s\<close> that the callback updates. The
  result is the final state, the lines printed, and whether the loop is still running
  (blocked in \<^verbatim>\<open>recvfrom\<close> after the last event) or has left through \<^verbatim>\<open>break\<close>. The
  single \<^verbatim>\<open>except Exception\<close> covers the receive, the decoding and the callback.
\<close>

fun listen :: "(message \<Rightarrow> addr \<Rightarrow> 's \<Rightarrow> py_error + 's) \<Rightarrow> 's \<Rightarrow> recv_event list
    \<Rightarrow> 's \<times> console_line list \<times> bool" where
  "listen callback s [] = (s, [], True)"
| "listen callback s (Recv_raises # evs) = (s, [Error_receiving_UDP_packet], False)"
| "listen callback s (Datagram None a # evs) = (s, [Error_receiving_UDP_packet], False)"
| "listen callback s (Datagram (Some message) a # evs) =
     (case callback message a s of
        Inl err \<Rightarrow> (s, [Error_receiving_UDP_packet], False)
      | Inr s' \<Rightarrow> listen callback s' evs)"

section \<open>Downloads (file_manager.py, networking.py)\<close>

text \<open>
  The read side of a TCP connection: the data still to arrive, in the segments it arrives
  in, and \<open>Reset\<close> where the connection breaks. \<^verbatim>\<open>recv(n)\<close> returns at most \<open>n\<close> bytes of
  the next segment, the empty string at the end of the stream, and raises at a reset.
\<close>

datatype segment = Data bytes | Reset

type_synonym sock = "segment list"

fun recv :: "nat \<Rightarrow> sock \<Rightarrow> unit + (bytes \<times> sock)" where
  "recv n [] = Inr ([], [])"
| "recv n (Reset # rest) = Inl ()"
| "recv n (Data bs # rest) =
     Inr (take n bs, if drop n bs = [] then rest else Data (drop n bs) # rest)"

definition BUFFER_SIZE :: nat where "BUFFER_SIZE = 4096"

text \<open>\<^verbatim>\<open>struct.unpack('>Q', raw)\<close>: eight bytes, big-endian; any other length raises.\<close>

definition unpack_Q :: "bytes \<Rightarrow> nat option" where
  "unpack_Q raw =
     (if length raw = 8 then Some (foldl (\<lambda>acc b. acc * 256 + unat b) 0 raw) else None)"

text \<open>The loop of \<^verbatim>\<open>TCPClient.receive_file\<close>: the bytes written to the file, and whether
  \<^verbatim>\<open>recv\<close> raised.\<close>

function receive_loop :: "nat \<Rightarrow> nat \<Rightarrow> sock \<Rightarrow> bytes \<Rightarrow> bool \<times> bytes" where
  "receive_loop received filesize sk written =
     (if received < filesize then
        (case recv (min BUFFER_SIZE (filesize - received)) sk of
           Inl _ \<Rightarrow> (True, written)
         | Inr (chunk, sk') \<Rightarrow>
             if chunk = [] then (False, written)
             else receive_loop (received + length chunk) filesize sk' (written @ chunk))
      else (False, written))"
  by pat_completeness auto
termination
proof (relation "measure (\<lambda>(received, filesize, sk, written). filesize - received)")
  fix received filesize :: nat and sk sk' :: sock and written chunk :: bytes
  assume "received < filesize" and "chunk \<noteq> []"
  then have "filesize - (received + length chunk) < filesize - received"
    by (cases chunk) auto
  then show "((received + length chunk, filesize, sk', written @ chunk),
              (received, filesize, sk, written))
             \<in> measure (\<lambda>(received, filesize, sk, written). filesize - received)"
    by simp
qed simp

declare receive_loop.simps [simp del]

type_synonym files = "(string \<times> bytes) list"

text \<open>\<^verbatim>\<open>TCPClient.receive_file\<close>: its own errors are printed and swallowed; the file is
  opened (created empty) only once the size header has been read.\<close>

definition receive_file :: "sock \<Rightarrow> string \<Rightarrow> files \<Rightarrow> files \<times> console_line list" where
  "receive_file sk save_path fs =
     (case recv 8 sk of
        Inl _ \<Rightarrow> (fs, [Error_receiving_file])
      | Inr (raw_size, sk1) \<Rightarrow>
          if raw_size = [] then (fs, [])
          else (case unpack_Q raw_size of
                  None \<Rightarrow> (fs, [Error_receiving_file])
                | Some filesize \<Rightarrow>
                    let (raised, written) = receive_loop 0 filesize sk1 []
                    in (AList.update save_path written fs,
                        if raised then [Error_receiving_file] else [])))"

text \<open>\<^verbatim>\<open>os.path.join\<close> of a directory and a name.\<close>

definition path_join :: "string \<Rightarrow> string \<Rightarrow> string" where
  "path_join d f =
     (if f \<noteq> [] \<and> hd f = CHR ''/'' then f
      else if d = [] \<or> last d = CHR ''/'' then d @ f
      else d @ ''/'' @ f)"

text \<open>
  \<^verbatim>\<open>FileManager.download_file\<close>. \<open>sha256\<close> stands for \<^verbatim>\<open>_calculate_hash\<close> applied to a file's
  content; \<open>conn\<close> is the connection \<^verbatim>\<open>socket.create_connection\<close> gives once the file
  name has been sent, \<open>None\<close> when connecting or sending raises. Directories and the
  progress lines are not modelled.
\<close>

definition target_dir :: "string option \<Rightarrow> string \<Rightarrow> string" where
  "target_dir save_dir shared_dir =
     (case save_dir of Some d \<Rightarrow> if truthy save_dir then d else shared_dir | None \<Rightarrow> shared_dir)"

definition download_file :: "(bytes \<Rightarrow> string) \<Rightarrow> string \<Rightarrow> files \<Rightarrow> sock option
    \<Rightarrow> string \<Rightarrow> string option \<Rightarrow> string option \<Rightarrow> files \<times> console_line list" where
  "download_file sha256 shared_dir fs conn filename save_dir expected_hash =
     (case conn of
        None \<Rightarrow> (fs, [Downloading, Error_downloading_file])
      | Some sk \<Rightarrow>
          let save_path = path_join (target_dir save_dir shared_dir) filename;
              (fs1, printed) = receive_file sk save_path fs;
              out = [Downloading] @ printed @ [Downloaded]
          in (case expected_hash of
                None \<Rightarrow> (fs1, out)
              | Some expected \<Rightarrow>
                  if truthy expected_hash then
                    (case map_of fs1 save_path of
                       None \<Rightarrow> (fs1, out @ [Verifying_file_integrity, Error_downloading_file])
                     | Some content \<Rightarrow>
                         let calculated_hash = sha256 content
                         in if calculated_hash = expected
                            then (fs1, out @ [Verifying_file_integrity, Integrity_verified])
                            else (fs1, out @ [Verifying_file_integrity,
                                              Integrity_check_FAILED expected calculated_hash]))
                  else (fs1, out)))"

section \<open>The catalog invariant\<close>

text \<open>
  The catalog is a dictionary (its keys are distinct) and, under each filename, no two
  entries have the same \<open>peer_id\<close>: at most one entry per pair of filename and peer.
\<close>

definition catalog_inv :: "catalog \<Rightarrow> bool" where
  "catalog_inv cat =
     (distinct (map fst cat) \<and> (\<forall>fe \<in> set cat. distinct (map peer_id (snd fe))))"

section \<open>Example values\<close>

definition example_env :: env where
  "example_env = \<lparr>now = 100, local_ip = ''10.0.0.1''\<rparr>"

definition example_peer :: peer where
  "example_peer = \<lparr>self_id = ''m'', state = FOLLOWER, leader_id = None, peers = [],
     global_catalog = [], last_heartbeats = [], last_leader_heartbeat = 0, udp_port = 5000,
     tcp_port = 6000, election_in_progress = False, last_election_time = 0, running = True,
     outbox = []\<rparr>"

definition example_src :: addr where "example_src = (''10.0.0.9'', 5001)"

definition example_coordinator :: message where
  "example_coordinator = empty_message\<lparr>m_type := Some MSG_COORDINATOR,
     m_sender_id := Some ''z'', m_addr := Some (''10.0.0.9'', 5001)\<rparr>"

text \<open>The callback a peer hands to \<open>listen\<close>.\<close>

definition peer_callback :: "message \<Rightarrow> addr \<Rightarrow> peer \<Rightarrow> py_error + peer" where
  "peer_callback message a p = handle_udp_message example_env p message a"

text \<open>A leader \<open>m\<close>, then the same leader after peer \<open>q\<close> has sent DISCOVERY at time 100,
  after \<open>q\<close> has published \<^verbatim>\<open>a.txt\<close> with hash \<open>h1\<close>, and after \<open>q\<close> has published it again
  with hash \<open>h2\<close>.\<close>

definition example_leader :: peer where
  "example_leader = example_peer\<lparr>state := LEADER, leader_id := Some ''m''\<rparr>"

definition example_discovery :: message where
  "example_discovery = empty_message\<lparr>m_type := Some MSG_DISCOVERY, m_sender_id := Some ''q'',
     m_addr := Some example_src\<rparr>"

definition example_publish :: "string \<Rightarrow> message" where
  "example_publish h = empty_message\<lparr>m_type := Some MSG_PUBLISH, m_sender_id := Some ''q'',
     m_files := Some (FileMap [(''a.txt'', \<lparr>md_size = Some 17, md_hash = Some h\<rparr>)]),
     m_tcp_port := Some 7000\<rparr>"

definition example_entry :: "string \<Rightarrow> entry" where
  "example_entry h = \<lparr>peer_id = ''q'', host = ''10.0.0.9'', port = 7000, e_size = 17,
     e_hash = Some h\<rparr>"

definition example_joined :: peer where
  "example_joined = example_leader\<lparr>
     peers := [(''q'', \<lparr>addr = example_src, last_seen = 100\<rparr>)],
     outbox := [Send_packet (empty_message\<lparr>m_type := Some MSG_DISCOVERY_RESPONSE,
                  m_sender_id := Some ''m'', m_leader_id := Some ''m''\<rparr>) example_src]\<rparr>"

definition example_once :: peer where
  "example_once = example_joined\<lparr>global_catalog := [(''a.txt'', [example_entry ''h1''])]\<rparr>"


definition example_twice :: peer where
  "example_twice = example_joined\<lparr>global_catalog := [(''a.txt'', [example_entry ''h2''])]\<rparr>"

text \<open>A list-form PUBLISH from \<open>q\<close> and the leader after it; a connection that delivers a
  three-byte file, and a stand-in for the hash function.\<close>

definition example_publish_list :: message where
  "example_publish_list = empty_message\<lparr>m_type := Some MSG_PUBLISH, m_sender_id := Some ''q'',
     m_files := Some (FileList [''a.txt'', ''b.txt'']), m_tcp_port := Some 7000\<rparr>"

definition example_listed :: peer where
  "example_listed = example_joined\<lparr>global_catalog :=
     [(''a.txt'', [\<lparr>peer_id = ''q'', host = ''10.0.0.9'', port = 7000, e_size = 0, e_hash = None\<rparr>]),
      (''b.txt'', [\<lparr>peer_id = ''q'', host = ''10.0.0.9'', port = 7000, e_size = 0, e_hash = None\<rparr>])]\<rparr>"

definition example_sock :: sock where
  "example_sock = [Data [0, 0, 0, 0, 0, 0, 0, 3], Data [104, 105, 10]]"

definition example_sha256 :: "bytes \<Rightarrow> string" where
  "example_sha256 bs = (if bs = [104, 105, 10] then ''98ea6e4f'' else ''e3b0c442'')"

section \<open>Properties of the election\<close>

lemmas state_defs = FOLLOWER_def CANDIDATE_def LEADER_def

lemmas msg_defs = MSG_DISCOVERY_def MSG_DISCOVERY_RESPONSE_def MSG_HEARTBEAT_def
  MSG_ELECTION_def MSG_COORDINATOR_def MSG_PUBLISH_def MSG_QUERY_FILES_def MSG_FILE_LIST_def

text \<open>
  C4. An ELECTION message from a sender \<open>s\<close>: when \<open>s\<close> is greater than the receiver's
  identifier the receiver only clears its election flag (its outbox is unchanged, so
  nothing is broadcast); when \<open>s\<close> is smaller and no election is in progress the receiver
  starts its own election, which sets the flag, broadcasts ELECTION with its identifier and
  arms a 3 second timer for \<^verbatim>\<open>check_election_result\<close>; and \<open>start_election\<close> changes
  nothing while an election is in progress.
\<close>

theorem election_message_handled:
  "m_sender_id message = Some s \<Longrightarrow>
   (s > self_id p \<longrightarrow>
      handle_election_message e p message = Inr (p\<lparr>election_in_progress := False\<rparr>)) \<and>
   (s < self_id p \<and> \<not> election_in_progress p \<longrightarrow>
      (\<exists>p'. handle_election_message e p message = Inr p' \<and> p' = start_election e p \<and>
        election_in_progress p' \<and>
        outbox p' = outbox p @
          [Send_broadcast (empty_message\<lparr>m_type := Some MSG_ELECTION,
                                         m_sender_id := Some (self_id p)\<rparr>),
           Start_timer 3 Check_election_result])) \<and>
   (election_in_progress p \<longrightarrow> start_election e p = p)"
  by (auto simp: handle_election_message_def start_election_def send_broadcast_def
      start_timer_def election_msg_def MSG_ELECTION_def)

theorem election_message_handled_witness:
  "handle_election_message example_env (example_peer\<lparr>election_in_progress := True\<rparr>)
     (empty_message\<lparr>m_sender_id := Some ''z''\<rparr>) = Inr example_peer \<and>
   outbox (start_election example_env example_peer) =
     [Send_broadcast (empty_message\<lparr>m_type := Some MSG_ELECTION, m_sender_id := Some ''m''\<rparr>),
      Start_timer 3 Check_election_result] \<and>
   handle_election_message example_env example_peer (empty_message\<lparr>m_sender_id := Some ''a''\<rparr>)
     = Inr (start_election example_env example_peer) \<and>
   start_election example_env (example_peer\<lparr>election_in_progress := True\<rparr>)
     = example_peer\<lparr>election_in_progress := True\<rparr>"
  using election_message_handled [of "empty_message\<lparr>m_sender_id := Some ''z''\<rparr>" "''z''"
      "example_peer\<lparr>election_in_progress := True\<rparr>" example_env]
    election_message_handled [of "empty_message\<lparr>m_sender_id := Some ''a''\<rparr>" "''a''"
      example_peer example_env]
  by (simp add: example_peer_def empty_message_def)

text \<open>
  C5. When the decision timer fires while the election is still in progress, the peer
  becomes LEADER with itself as leader, clears the flag and broadcasts COORDINATOR with
  its identifier and address, every other field unchanged; when the election is no longer
  in progress the peer is unchanged.
\<close>

theorem election_timer_expiry:
  "(election_in_progress p \<longrightarrow>
      check_election_result e p =
        p\<lparr>state := LEADER, leader_id := Some (self_id p), election_in_progress := False,
          outbox := outbox p @
            [Send_broadcast (empty_message\<lparr>m_type := Some MSG_COORDINATOR,
               m_sender_id := Some (self_id p), m_addr := Some (local_ip e, udp_port p)\<rparr>)]\<rparr>) \<and>
   (\<not> election_in_progress p \<longrightarrow> check_election_result e p = p)"
  by (simp add: check_election_result_def declare_victory_def send_broadcast_def
      coordinator_msg_def LEADER_def MSG_COORDINATOR_def Let_def)

theorem election_timer_expiry_witness:
  "check_election_result example_env (example_peer\<lparr>election_in_progress := True\<rparr>) =
     example_peer\<lparr>state := LEADER, leader_id := Some ''m'',
       outbox := [Send_broadcast (empty_message\<lparr>m_type := Some MSG_COORDINATOR,
          m_sender_id := Some ''m'', m_addr := Some (''10.0.0.1'', 5000)\<rparr>)]\<rparr> \<and>
   check_election_result example_env example_peer = example_peer"
  using election_timer_expiry [of "example_peer\<lparr>election_in_progress := True\<rparr>" example_env]
    election_timer_expiry [of example_peer example_env]
  by (simp add: example_peer_def example_env_def)

section \<open>Properties of the message handlers\<close>

text \<open>
  C6. A COORDINATOR message from another peer \<open>s\<close>, whatever the receiver's role, is
  handled by \<open>handle_coordinator\<close>: the receiver becomes FOLLOWER with leader \<open>s\<close>, its
  election flag is cleared, the announced address is recorded for \<open>s\<close> in the directory,
  and the catalog is empty afterwards.
\<close>

theorem coordinator_adopted:
  "m_type message = Some MSG_COORDINATOR \<Longrightarrow> m_sender_id message = Some s \<Longrightarrow>
   s \<noteq> self_id p \<Longrightarrow>
   \<exists>p'. handle_udp_message e p message src = Inr p' \<and>
     handle_coordinator e p message = Inr p' \<and>
     state p' = FOLLOWER \<and> leader_id p' = Some s \<and> \<not> election_in_progress p' \<and>
     (\<forall>a. m_addr message = Some a \<longrightarrow>
        map_of (peers p') s = Some \<lparr>addr = a, last_seen = now e\<rparr>) \<and>
     global_catalog p' = []"
  by (auto simp: handle_udp_message_def handle_coordinator_def msg_defs Let_def
      AList.update_conv' split: option.splits)


theorem coordinator_adopted_witness:
  "\<exists>p'. handle_udp_message example_env (example_peer\<lparr>state := LEADER, election_in_progress := True,
         global_catalog := [(''a.txt'', [])]\<rparr>)
       (empty_message\<lparr>m_type := Some MSG_COORDINATOR, m_sender_id := Some ''z'',
          m_addr := Some (''10.0.0.9'', 5001)\<rparr>) (''10.0.0.9'', 5001) = Inr p' \<and>
     state p' = FOLLOWER \<and> leader_id p' = Some ''z'' \<and> \<not> election_in_progress p' \<and>
     map_of (peers p') ''z'' = Some \<lparr>addr = (''10.0.0.9'', 5001), last_seen = 100\<rparr> \<and>
     global_catalog p' = []"
  using coordinator_adopted [where message = "empty_message\<lparr>m_type := Some MSG_COORDINATOR,
        m_sender_id := Some ''z'', m_addr := Some (''10.0.0.9'', 5001)\<rparr>" and s = "''z''"
      and p = "example_peer\<lparr>state := LEADER, election_in_progress := True,
         global_catalog := [(''a.txt'', [])]\<rparr>" and e = example_env and src = "(''10.0.0.9'', 5001)"]
  by (auto simp add: example_peer_def example_env_def)

text \<open>
  C7. A peer in LEADER role that receives a HEARTBEAT with role LEADER from \<open>s\<close> steps down
  (FOLLOWER, leader \<open>s\<close>) when \<open>s\<close> is strictly greater than its own identifier, and stays
  LEADER with its leader unchanged when \<open>s\<close> is lower or equal.
\<close>

theorem heartbeat_split_leader:
  "state p = LEADER \<Longrightarrow> m_role message = Some LEADER \<Longrightarrow> m_sender_id message = Some s \<Longrightarrow>
   (s > self_id p \<longrightarrow>
      handle_heartbeat e p message =
        Inr (p\<lparr>state := FOLLOWER, leader_id := Some s, last_leader_heartbeat := now e\<rparr>)) \<and>
   (s \<le> self_id p \<longrightarrow>
      (\<exists>p'. handle_heartbeat e p message = Inr p' \<and> state p' = LEADER \<and>
            leader_id p' = leader_id p))"
  by (auto simp: handle_heartbeat_def record_heartbeat_def state_defs Let_def
      split: option.splits)


theorem heartbeat_split_leader_witness:
  "handle_heartbeat example_env (example_peer\<lparr>state := LEADER\<rparr>)
     (empty_message\<lparr>m_sender_id := Some ''z'', m_role := Some LEADER\<rparr>) =
     Inr (example_peer\<lparr>state := FOLLOWER, leader_id := Some ''z'', last_leader_heartbeat := 100\<rparr>) \<and>
   (\<exists>p'. handle_heartbeat example_env (example_peer\<lparr>state := LEADER\<rparr>)
     (empty_message\<lparr>m_sender_id := Some ''a'', m_role := Some LEADER\<rparr>) = Inr p' \<and>
     state p' = LEADER \<and> leader_id p' = None)"
  using heartbeat_split_leader [where p = "example_peer\<lparr>state := LEADER\<rparr>" and e = example_env
      and message = "empty_message\<lparr>m_sender_id := Some ''z'', m_role := Some LEADER\<rparr>" and s = "''z''"]
    heartbeat_split_leader [where p = "example_peer\<lparr>state := LEADER\<rparr>" and e = example_env
      and message = "empty_message\<lparr>m_sender_id := Some ''a'', m_role := Some LEADER\<rparr>" and s = "''a''"]
  by (simp add: example_peer_def example_env_def)

lemma own_message: "m_sender_id message = Some (self_id p) \<Longrightarrow> handle_udp_message e p message src = Inr p"
  by (simp add: handle_udp_message_def)

lemma self_id_declare_victory: "self_id (declare_victory e p) = self_id p"
  by (simp add: declare_victory_def send_broadcast_def Let_def)

lemma outbox_declare_victory:
  "outbox (declare_victory e p) = outbox p @ [Send_broadcast (coordinator_msg e p)]"
  by (simp add: declare_victory_def send_broadcast_def Let_def coordinator_msg_def)

lemma heartbeat_loop_leader:
  "state p = LEADER \<Longrightarrow> heartbeat_loop e p = send_broadcast (leader_heartbeat_msg p) p"
  by (simp add: heartbeat_loop_def)

text \<open>
  C9. A message whose sender is the receiving peer itself leaves the peer unchanged: no
  handler runs. In particular the COORDINATOR that \<open>declare_victory\<close> broadcasts and the
  HEARTBEAT that a leader's \<open>heartbeat_loop\<close> broadcasts leave their sender unchanged when
  they come back to it.
\<close>

theorem own_messages_ignored:
  "(m_sender_id message = Some (self_id p) \<longrightarrow> handle_udp_message e p message src = Inr p) \<and>
   (outbox (declare_victory e p) = outbox p @ [Send_broadcast msg] \<longrightarrow>
      handle_udp_message e' (declare_victory e p) msg src = Inr (declare_victory e p)) \<and>
   (state p = LEADER \<and> outbox (heartbeat_loop e p) = outbox p @ [Send_broadcast msg'] \<longrightarrow>
      handle_udp_message e' (heartbeat_loop e p) msg' src = Inr (heartbeat_loop e p))"
proof (intro conjI impI)
  assume "m_sender_id message = Some (self_id p)"
  then show "handle_udp_message e p message src = Inr p" by (rule own_message)
next
  assume "outbox (declare_victory e p) = outbox p @ [Send_broadcast msg]"
  then have "msg = coordinator_msg e p" by (simp add: outbox_declare_victory)
  then have "m_sender_id msg = Some (self_id (declare_victory e p))"
    by (simp add: coordinator_msg_def self_id_declare_victory)
  then show "handle_udp_message e' (declare_victory e p) msg src = Inr (declare_victory e p)"
    by (rule own_message)
next
  assume a: "state p = LEADER \<and> outbox (heartbeat_loop e p) = outbox p @ [Send_broadcast msg']"
  then have hl: "heartbeat_loop e p = send_broadcast (leader_heartbeat_msg p) p"
    by (simp add: heartbeat_loop_leader)
  with a have "msg' = leader_heartbeat_msg p" by (simp add: send_broadcast_def)
  then have "m_sender_id msg' = Some (self_id (heartbeat_loop e p))"
    by (simp add: hl leader_heartbeat_msg_def send_broadcast_def)
  then show "handle_udp_message e' (heartbeat_loop e p) msg' src = Inr (heartbeat_loop e p)"
    by (rule own_message)
qed

theorem own_messages_ignored_witness:
  "handle_udp_message example_env (example_peer\<lparr>state := LEADER\<rparr>)
     (empty_message\<lparr>m_type := Some MSG_COORDINATOR, m_sender_id := Some ''m''\<rparr>) (''10.0.0.1'', 5000)
     = Inr (example_peer\<lparr>state := LEADER\<rparr>) \<and>
   handle_udp_message example_env (declare_victory example_env (example_peer\<lparr>state := LEADER\<rparr>))
     (coordinator_msg example_env example_peer) (''10.0.0.1'', 5000)
     = Inr (declare_victory example_env (example_peer\<lparr>state := LEADER\<rparr>)) \<and>
   handle_udp_message example_env (heartbeat_loop example_env (example_peer\<lparr>state := LEADER\<rparr>))
     (leader_heartbeat_msg example_peer) (''10.0.0.1'', 5000)
     = Inr (heartbeat_loop example_env (example_peer\<lparr>state := LEADER\<rparr>))"
  using own_messages_ignored [where message = "empty_message\<lparr>m_type := Some MSG_COORDINATOR, m_sender_id := Some ''m''\<rparr>"
      and p = "example_peer\<lparr>state := LEADER\<rparr>" and e = example_env and e' = example_env
      and src = "(''10.0.0.1'', 5000)" and msg = "coordinator_msg example_env example_peer"
      and msg' = "leader_heartbeat_msg example_peer"]
  by (simp add: outbox_declare_victory heartbeat_loop_leader send_broadcast_def
      leader_heartbeat_msg_def coordinator_msg_def example_peer_def)

section \<open>Properties of the receive loop\<close>

text \<open>
  C1, as stated, fails: a datagram that cannot be decoded ends the loop. Here the
  undecodable datagram is followed by a COORDINATOR message; the loop prints the error,
  leaves through \<^verbatim>\<open>break\<close> and the peer is unchanged, while the same COORDINATOR message
  arriving alone is processed and the loop keeps running.
\<close>

theorem listen_bad_datagram_counterexample:
  "listen peer_callback example_peer
     [Datagram None example_src, Datagram (Some example_coordinator) example_src]
     = (example_peer, [Error_receiving_UDP_packet], False) \<and>
   listen peer_callback example_peer [Datagram (Some example_coordinator) example_src]
     = (example_peer\<lparr>leader_id := Some ''z'',
          peers := [(''z'', \<lparr>addr = (''10.0.0.9'', 5001), last_seen = 100\<rparr>)]\<rparr>, [], True)"
  by (simp add: peer_callback_def handle_udp_message_def handle_coordinator_def
      example_coordinator_def example_peer_def example_env_def example_src_def
      empty_message_def msg_defs state_defs)

text \<open>
  C1, amended. Whatever came before it and whatever follows it, an undecodable datagram
  is not delivered to the callback, the error is printed, and the loop ends there: the
  final state is the one reached on the datagrams before it, and none of the datagrams
  after it is processed.
\<close>

theorem listen_stops_at_bad_datagram:
  "listen callback s (pre @ Datagram None a # rest) =
     (fst (listen callback s pre), [Error_receiving_UDP_packet], False)"
  by (induction callback s pre rule: listen.induct) (simp_all split: sum.splits)

section \<open>Properties of the catalog\<close>



lemma entries_update: "entries (AList.update k v al) g = (if g = k then v else entries al g)"
  by (simp add: entries_def AList.update_conv')

lemma entries_delete: "entries (AList.delete k al) g = (if g = k then [] else entries al g)"
  by (simp add: entries_def AList.delete_conv')




lemma entries_None: "map_of cat f = None \<Longrightarrow> entries cat f = []"
  by (simp add: entries_def)

lemma entries_publish_one:
  "entries (publish_one pid h prt cat (f, md)) g =
     (if g = f then filter (\<lambda>en. peer_id en \<noteq> pid) (entries cat f) @ [new_entry pid h prt md]
      else entries cat g)"
  by (simp add: publish_one_def Let_def entries_update entries_None)

lemma peer_id_new_entry: "peer_id (new_entry pid h prt md) = pid"
  by (simp add: new_entry_def)



lemma entries_publish_loop:
  "entries (foldl (publish_one pid h prt) cat files) g =
     (case map_of (rev files) g of
        None \<Rightarrow> entries cat g
      | Some md \<Rightarrow> filter (\<lambda>en. peer_id en \<noteq> pid) (entries cat g) @ [new_entry pid h prt md])"
proof (induction files rule: rev_induct)
  case Nil
  then show ?case by simp
next
  case (snoc fm files)
  obtain f md where fm: "fm = (f, md)" by (cases fm)
  show ?case
    using snoc by (auto simp: fm entries_publish_one peer_id_new_entry split: option.splits)
qed






lemma map_of_rev_distinct: "distinct (map fst xs) \<Longrightarrow> map_of (rev xs) = map_of xs"
  by (rule map_of_inject_set [THEN iffD2]) (auto simp: rev_map [symmetric])



lemma handle_publish_catalog:
  "state p = LEADER \<Longrightarrow> m_sender_id message = Some s \<Longrightarrow> m_files message = Some fs \<Longrightarrow>
   m_tcp_port message = Some prt \<Longrightarrow>
   handle_publish e p message a =
     Inr (p\<lparr>global_catalog := foldl (publish_one s (case a of Some ad \<Rightarrow> fst ad | None \<Rightarrow> local_ip e) prt)
            (global_catalog p)
            (case fs of FileList names \<Rightarrow> files_of_list names | FileMap fm \<Rightarrow> fm)\<rparr>)"
  by (simp add: handle_publish_def Let_def)

lemma publish_replaces:
  assumes "state p = LEADER" and "m_sender_id message = Some s"
    and "m_files message = Some (FileMap fs)" and "m_tcp_port message = Some prt"
    and "distinct (map fst fs)" and "map_of fs f = Some md"
    and "handle_publish e p message a = Inr p'"
  shows "filter (\<lambda>en. peer_id en = s) (entries (global_catalog p') f) =
           [new_entry s (case a of Some ad \<Rightarrow> fst ad | None \<Rightarrow> local_ip e) prt md]"
proof -
  have "map_of (rev fs) f = Some md"
    using assms(5,6) by (simp add: map_of_rev_distinct)
  moreover have "global_catalog p' =
      foldl (publish_one s (case a of Some ad \<Rightarrow> fst ad | None \<Rightarrow> local_ip e) prt) (global_catalog p) fs"
    using assms(7) handle_publish_catalog [OF assms(1-4), of e a] by auto
  ultimately show ?thesis
    by (simp add: entries_publish_loop peer_id_new_entry)
qed












lemmas example_defs = example_env_def example_peer_def example_src_def example_leader_def
  example_discovery_def example_publish_def example_entry_def example_joined_def
  example_once_def example_twice_def

lemma example_run_discovery:
  "handle_udp_message example_env example_leader example_discovery example_src = Inr example_joined"
  by (simp add: handle_udp_message_def handle_discovery_def send_packet_def Let_def
      example_defs empty_message_def msg_defs state_defs)

lemma example_run_publish:
  "handle_publish example_env example_joined (example_publish ''h1'') (Some example_src) = Inr example_once"
  "handle_publish example_env example_once (example_publish ''h2'') (Some example_src) = Inr example_twice"
  by (simp_all add: handle_publish_def publish_one_def new_entry_def entries_def Let_def
      example_defs empty_message_def msg_defs state_defs)

lemma example_run_sweep: "monitor_peers 1000 example_once = example_once"
  by (simp add: monitor_peers_def dead_peers_def example_defs state_defs)

lemma example_inv: "catalog_inv (global_catalog example_joined)"
  by (simp add: catalog_inv_def example_defs)







subsection \<open>List-form publishes\<close>

lemma map_of_foldl_update:
  "map_of (foldl (\<lambda>d f. AList.update f v d) d0 names) k =
     (if k \<in> set names then Some v else map_of d0 k)"
  by (induction names rule: rev_induct) (simp_all add: AList.update_conv')

lemma distinct_foldl_update:
  "distinct (map fst d0) \<Longrightarrow> distinct (map fst (foldl (\<lambda>d f. AList.update f v d) d0 names))"
  by (induction names rule: rev_induct) (simp_all add: AList.distinct_update)

lemma map_of_files_of_list:
  "map_of (files_of_list names) f =
     (if f \<in> set names then Some \<lparr>md_size = Some 0, md_hash = None\<rparr> else None)"
  by (simp add: files_of_list_def map_of_foldl_update)

lemma distinct_files_of_list: "distinct (map fst (files_of_list names))"
  by (simp add: files_of_list_def distinct_foldl_update)

lemma handle_publish_list_as_map:
  "handle_publish e p (message\<lparr>m_files := Some (FileList names)\<rparr>) a =
   handle_publish e p (message\<lparr>m_files := Some (FileMap (files_of_list names))\<rparr>) a"
  by (simp add: handle_publish_def split: option.splits)

text \<open>
  C8. A PUBLISH whose files are a plain list of names is handled exactly as the PUBLISH
  whose files are the mapping of each listed name to size 0 and a null hash; at a leader,
  each listed name then has exactly one entry of the sender, with size 0 and no hash.
\<close>

theorem publish_list_form:
  "handle_publish e p (message\<lparr>m_files := Some (FileList names)\<rparr>) a =
     handle_publish e p (message\<lparr>m_files := Some (FileMap (files_of_list names))\<rparr>) a \<and>
   distinct (map fst (files_of_list names)) \<and>
   map_of (files_of_list names) g =
     (if g \<in> set names then Some \<lparr>md_size = Some 0, md_hash = None\<rparr> else None) \<and>
   (state p = LEADER \<and> m_sender_id message = Some s \<and> m_tcp_port message = Some prt \<and>
    f \<in> set names \<and>
    handle_publish e p (message\<lparr>m_files := Some (FileList names)\<rparr>) a = Inr p' \<longrightarrow>
      filter (\<lambda>en. peer_id en = s) (entries (global_catalog p') f) =
        [\<lparr>peer_id = s, host = (case a of Some ad \<Rightarrow> fst ad | None \<Rightarrow> local_ip e),
          port = prt, e_size = 0, e_hash = None\<rparr>])"
proof (intro conjI impI)
  assume h: "state p = LEADER \<and> m_sender_id message = Some s \<and> m_tcp_port message = Some prt \<and>
    f \<in> set names \<and>
    handle_publish e p (message\<lparr>m_files := Some (FileList names)\<rparr>) a = Inr p'"
  let ?m = "message\<lparr>m_files := Some (FileMap (files_of_list names))\<rparr>"
  have run: "handle_publish e p ?m a = Inr p'"
    using h by (simp add: handle_publish_list_as_map)
  have "filter (\<lambda>en. peer_id en = s) (entries (global_catalog p') f) =
          [new_entry s (case a of Some ad \<Rightarrow> fst ad | None \<Rightarrow> local_ip e) prt
             \<lparr>md_size = Some 0, md_hash = None\<rparr>]"
  proof (rule publish_replaces [where message = ?m and fs = "files_of_list names"])
    show "state p = LEADER" using h by simp
    show "m_sender_id ?m = Some s" using h by simp
    show "m_files ?m = Some (FileMap (files_of_list names))" by simp
    show "m_tcp_port ?m = Some prt" using h by simp
    show "distinct (map fst (files_of_list names))" by (rule distinct_files_of_list)
    show "map_of (files_of_list names) f = Some \<lparr>md_size = Some 0, md_hash = None\<rparr>"
      using h by (simp add: map_of_files_of_list)
    show "handle_publish e p ?m a = Inr p'" by (rule run)
  qed
  then show "filter (\<lambda>en. peer_id en = s) (entries (global_catalog p') f) =
        [\<lparr>peer_id = s, host = (case a of Some ad \<Rightarrow> fst ad | None \<Rightarrow> local_ip e),
          port = prt, e_size = 0, e_hash = None\<rparr>]"
    by (simp add: new_entry_def)
qed (simp_all add: handle_publish_list_as_map distinct_files_of_list map_of_files_of_list)

lemma example_run_publish_list:
  "handle_publish example_env example_joined example_publish_list (Some example_src) = Inr example_listed"
  by (simp add: handle_publish_def publish_one_def new_entry_def entries_def Let_def files_of_list_def
      example_defs example_publish_list_def example_listed_def empty_message_def msg_defs state_defs)

theorem publish_list_form_witness:
  "handle_publish example_env example_joined example_publish_list (Some example_src) = Inr example_listed \<and>
   filter (\<lambda>en. peer_id en = ''q'') (entries (global_catalog example_listed) ''b.txt'') =
     [\<lparr>peer_id = ''q'', host = ''10.0.0.9'', port = 7000, e_size = 0, e_hash = None\<rparr>]"
  using publish_list_form [where e = example_env and p = example_joined
      and message = example_publish_list and names = "[''a.txt'', ''b.txt'']"
      and a = "Some example_src" and s = "''q''" and prt = 7000 and f = "''b.txt''"
      and p' = example_listed]
    example_run_publish_list
  by (simp add: example_publish_list_def example_joined_def example_leader_def example_peer_def
      example_src_def empty_message_def state_defs)

subsection \<open>The liveness sweep\<close>

lemma entries_purge_one:
  "entries (purge_one pid cat f) g =
     (if g = f then filter (\<lambda>en. peer_id en \<noteq> pid) (entries cat f) else entries cat g)"
  by (simp add: purge_one_def Let_def entries_update entries_delete)

lemma entries_purge_loop:
  "entries (foldl (purge_one pid) cat ks) g =
     (if g \<in> set ks then filter (\<lambda>en. peer_id en \<noteq> pid) (entries cat g) else entries cat g)"
  by (induction ks arbitrary: cat) (auto simp: entries_purge_one)

lemma entries_purge:
  "entries (purge pid cat) g = filter (\<lambda>en. peer_id en \<noteq> pid) (entries cat g)"
proof (cases "g \<in> set (map fst cat)")
  case True
  then show ?thesis by (simp add: purge_def entries_purge_loop)
next
  case False
  then have "map_of cat g = None" by (simp add: map_of_eq_None_iff)
  then have "entries cat g = []" by (rule entries_None)
  with False show ?thesis by (simp add: purge_def entries_purge_loop)
qed

lemma remove_dead_peers_sweep:
  "map_of (peers (foldl remove_dead_peer p ds)) q =
     (if q \<in> set ds then None else map_of (peers p) q) \<and>
   map_of (last_heartbeats (foldl remove_dead_peer p ds)) q =
     (if q \<in> set ds then None else map_of (last_heartbeats p) q) \<and>
   entries (global_catalog (foldl remove_dead_peer p ds)) g =
     filter (\<lambda>en. peer_id en \<notin> set ds) (entries (global_catalog p) g)"
proof (induction ds arbitrary: p)
  case Nil
  then show ?case by simp
next
  case (Cons d ds)
  show ?case
    by (simp add: Cons [of "remove_dead_peer p d"])
      (auto simp: remove_dead_peer_def AList.delete_conv' entries_purge intro: filter_cong)
qed

lemma dead_peers_iff:
  "q \<in> set (dead_peers t p) \<longleftrightarrow> (\<exists>seen. (q, seen) \<in> set (last_heartbeats p) \<and> t - seen > 15)"
  by (force simp: dead_peers_def)

text \<open>What one pass of the sweep does at a leader.\<close>

lemma monitor_peers_sweep:
  assumes "state p = LEADER"
  shows "map_of (peers (monitor_peers t p)) q =
           (if q \<in> set (dead_peers t p) then None else map_of (peers p) q)"
    and "entries (global_catalog (monitor_peers t p)) g =
           filter (\<lambda>en. peer_id en \<notin> set (dead_peers t p)) (entries (global_catalog p) g)"
  using assms remove_dead_peers_sweep [of p "dead_peers t p" q g]
  by (simp_all add: monitor_peers_def)

text \<open>
  C3 does not hold of the code. The sweep looks only at \<^verbatim>\<open>last_heartbeats\<close>, which
  \<open>handle_heartbeat\<close> alone fills; \<open>handle_discovery\<close> records the peer in the directory
  with a \<open>last_seen\<close> time that the sweep never reads. Here peer \<open>q\<close> is recorded by its
  DISCOVERY at time 100 and publishes a file; at time 1000, silent for 900 seconds, the
  sweep leaves the leader unchanged: \<open>q\<close> is still in the directory and its entry is still
  in the catalog.
\<close>

theorem discovered_peer_never_evicted:
  "handle_udp_message example_env example_leader example_discovery example_src = Inr example_joined \<and>
   handle_publish example_env example_joined (example_publish ''h1'') (Some example_src) = Inr example_once \<and>
   state example_once = LEADER \<and>
   map_of (peers example_once) ''q'' = Some \<lparr>addr = example_src, last_seen = 100\<rparr> \<and>
   1000 - last_seen \<lparr>addr = example_src, last_seen = 100\<rparr> > 15 \<and>
   monitor_peers 1000 example_once = example_once \<and>
   entries (global_catalog (monitor_peers 1000 example_once)) ''a.txt'' = [example_entry ''h1'']"
  by (simp add: example_run_discovery example_run_publish example_run_sweep)
    (simp add: example_defs entries_def state_defs)

section \<open>Properties of downloads\<close>

lemma download_no_connection:
  "download_file digest shared_dir fs None filename save_dir expected_hash =
     (fs, [Downloading, Error_downloading_file])"
  by (simp add: download_file_def)

lemma download_no_hash:
  "download_file digest shared_dir fs (Some sk) filename save_dir None =
     (fst (receive_file sk (path_join (target_dir save_dir shared_dir) filename) fs),
      [Downloading] @ snd (receive_file sk (path_join (target_dir save_dir shared_dir) filename) fs)
        @ [Downloaded])"
  by (simp add: download_file_def Let_def split: prod.splits)

lemma receive_file_prints: "set (snd (receive_file sk save_path fs)) \<subseteq> {Error_receiving_file}"
  by (auto simp: receive_file_def Let_def split: sum.splits prod.splits option.splits if_splits)

lemma files_of_list_values:
  assumes "fm \<in> set (files_of_list names)"
  shows "snd fm = \<lparr>md_size = Some 0, md_hash = None\<rparr>"
proof -
  obtain k v where fm: "fm = (k, v)" by (cases fm)
  with assms have "map_of (files_of_list names) k = Some v"
    by (simp add: distinct_files_of_list)
  then show ?thesis
    by (simp add: fm map_of_files_of_list split: if_splits)
qed

text \<open>
  C10. With no expected hash, the result of \<open>download_file\<close> does not depend on the hash
  function (the hash is never computed), nothing about verification is printed, and the
  files are exactly as the transfer left them. The entries made from a list-form PUBLISH
  have no hash.
\<close>

theorem download_without_hash:
  "download_file digest shared_dir fs conn filename save_dir None =
     download_file digest' shared_dir fs conn filename save_dir None \<and>
   set (snd (download_file digest shared_dir fs conn filename save_dir None)) \<subseteq>
     {Downloading, Downloaded, Error_downloading_file, Error_receiving_file} \<and>
   download_file digest shared_dir fs (Some sk) filename save_dir None =
     (fst (receive_file sk (path_join (target_dir save_dir shared_dir) filename) fs),
      [Downloading] @ snd (receive_file sk (path_join (target_dir save_dir shared_dir) filename) fs)
        @ [Downloaded]) \<and>
   (\<forall>fm \<in> set (files_of_list names). e_hash (new_entry pid h prt (snd fm)) = None)"
proof (intro conjI ballI)
  show "download_file digest shared_dir fs conn filename save_dir None =
     download_file digest' shared_dir fs conn filename save_dir None"
    by (cases conn) (simp_all add: download_no_connection download_no_hash)
  show "set (snd (download_file digest shared_dir fs conn filename save_dir None)) \<subseteq>
     {Downloading, Downloaded, Error_downloading_file, Error_receiving_file}"
    using receive_file_prints by (cases conn) (auto simp: download_no_connection download_no_hash)
  show "download_file digest shared_dir fs (Some sk) filename save_dir None =
     (fst (receive_file sk (path_join (target_dir save_dir shared_dir) filename) fs),
      [Downloading] @ snd (receive_file sk (path_join (target_dir save_dir shared_dir) filename) fs)
        @ [Downloaded])"
    by (rule download_no_hash)
next
  fix fm assume "fm \<in> set (files_of_list names)"
  then show "e_hash (new_entry pid h prt (snd fm)) = None"
    by (simp add: files_of_list_values new_entry_def)
qed

lemma example_receive:
  "receive_file example_sock ''downloads/a.txt'' [] = ([(''downloads/a.txt'', [104, 105, 10])], [])"
  by (simp add: receive_file_def example_sock_def unpack_Q_def receive_loop.simps BUFFER_SIZE_def)

lemma example_files_of_list:
  "files_of_list [''a.txt'', ''b.txt''] =
     [(''a.txt'', \<lparr>md_size = Some 0, md_hash = None\<rparr>), (''b.txt'', \<lparr>md_size = Some 0, md_hash = None\<rparr>)]"
  by (simp add: files_of_list_def)

theorem download_without_hash_witness:
  "download_file example_sha256 ''shared_files'' [] (Some example_sock) ''a.txt'' (Some ''downloads'')
       (e_hash (new_entry ''q'' ''10.0.0.9'' 7000 \<lparr>md_size = Some 0, md_hash = None\<rparr>))
     = ([(''downloads/a.txt'', [104, 105, 10])], [Downloading, Downloaded]) \<and>
   download_file example_sha256 ''shared_files'' [] (Some example_sock) ''a.txt'' (Some ''downloads'')
       (Some ''0000'')
     = ([(''downloads/a.txt'', [104, 105, 10])],
        [Downloading, Downloaded, Verifying_file_integrity,
         Integrity_check_FAILED ''0000'' ''98ea6e4f''])"
proof -
  have p: "path_join (target_dir (Some ''downloads'') ''shared_files'') ''a.txt'' = ''downloads/a.txt''"
    by (simp add: path_join_def target_dir_def)
  have "download_file example_sha256 ''shared_files'' [] (Some example_sock) ''a.txt''
          (Some ''downloads'') (Some ''0000'')
     = ([(''downloads/a.txt'', [104, 105, 10])],
        [Downloading, Downloaded, Verifying_file_integrity,
         Integrity_check_FAILED ''0000'' ''98ea6e4f''])"
    by (simp add: download_file_def p example_receive example_sha256_def)
  then show ?thesis
    using download_without_hash [where digest = example_sha256 and digest' = example_sha256
        and shared_dir = "''shared_files''" and fs = "[]" and conn = "Some example_sock"
        and sk = example_sock and filename = "''a.txt''" and save_dir = "Some ''downloads''"
        and names = "[''a.txt'', ''b.txt'']" and pid = "''q''" and h = "''10.0.0.9''" and prt = 7000]
    by (simp add: p example_receive example_files_of_list)
qed

end
